theory Spec2Isabelle
  imports Main
begin

section \<open>The BED line parser and the coordinate query of bed\_line.py\<close>

text \<open>
  The module \<^verbatim>\<open>permutation2020/python/bed_line.py\<close> defines the class
  \<^verbatim>\<open>BedLine\<close>. Its constructor parses one line of a BED file, keeps the
  coding part of every exon (\<^verbatim>\<open>_filter_utr\<close>, \<^verbatim>\<open>_init_exons\<close>) and
  its method \<^verbatim>\<open>query_position\<close> maps a genome coordinate to a position on the
  coding sequence or on a splice site. The module is Python 2 code: \<^verbatim>\<open>map\<close>
  returns a list, which \<^verbatim>\<open>_init_exons\<close> indexes. Python integers are
  unbounded, so they are \<^typ>\<open>int\<close> here; a raised exception is the left
  summand of the result.
\<close>

subsection \<open>Python built-ins used by the module\<close>

datatype py_error = ValueError | TypeError | IndexError

text \<open>\<^verbatim>\<open>s.split(sep)\<close> for a separator of one character: a string with
  \<open>n\<close> separators has \<open>n + 1\<close> fields, some possibly empty.\<close>

fun split :: "char \<Rightarrow> string \<Rightarrow> string list" where
  "split sep [] = [[]]"
| "split sep (c # cs) =
     (if c = sep then [] # split sep cs
      else (case split sep cs of
              [] \<Rightarrow> [[c]]
            | f # fs \<Rightarrow> (c # f) # fs))"

text \<open>\<^verbatim>\<open>s.strip(chars)\<close> for one character: drop it from both ends.\<close>

definition strip :: "char \<Rightarrow> string \<Rightarrow> string" where
  "strip ch s = rev (dropWhile (\<lambda>c. c = ch) (rev (dropWhile (\<lambda>c. c = ch) s)))"

text \<open>
  \<^verbatim>\<open>int(s)\<close> on a string, base ten: white space around the literal is
  ignored, one sign is allowed, and at least one decimal digit must follow. Anything
  else raises ValueError, which is \<open>None\<close> here.
\<close>

definition isspace :: "char \<Rightarrow> bool" where
  "isspace c = (c = CHR '' '' \<or> c = CHR 0x09 \<or> c = CHR 0x0A \<or> c = CHR 0x0B
                \<or> c = CHR 0x0C \<or> c = CHR 0x0D)"

definition isdigit :: "char \<Rightarrow> bool" where
  "isdigit c = (48 \<le> (of_char c :: nat) \<and> (of_char c :: nat) \<le> 57)"

definition digit_value :: "char \<Rightarrow> int" where
  "digit_value c = int (of_char c) - 48"

definition digits_value :: "string \<Rightarrow> int" where
  "digits_value ds = foldl (\<lambda>acc c. 10 * acc + digit_value c) 0 ds"

definition unsigned_int :: "string \<Rightarrow> int option" where
  "unsigned_int ds =
     (if ds \<noteq> [] \<and> list_all isdigit ds then Some (digits_value ds) else None)"

definition py_int :: "string \<Rightarrow> int option" where
  "py_int s =
     (case rev (dropWhile isspace (rev (dropWhile isspace s))) of
        [] \<Rightarrow> None
      | c # cs \<Rightarrow>
          if c = CHR ''-'' then map_option uminus (unsigned_int cs)
          else if c = CHR ''+'' then unsigned_int cs
          else unsigned_int (c # cs))"

text \<open>A list comprehension \<^verbatim>\<open>[int(s) for s in xs]\<close>: the first element
  that is no integer literal raises.\<close>

fun int_list :: "string list \<Rightarrow> int list option" where
  "int_list [] = Some []"
| "int_list (s # ss) =
     (case py_int s of
        None \<Rightarrow> None
      | Some n \<Rightarrow> (case int_list ss of None \<Rightarrow> None | Some ns \<Rightarrow> Some (n # ns)))"

subsection \<open>The data of a BedLine object\<close>

text \<open>\<^verbatim>\<open>BedTuple = namedtuple('BedTuple', BED_HEADER)\<close>: the twelve raw
  fields of the line, as strings.\<close>

record BedTuple =
  chrom :: string
  chromStart :: string
  chromEnd :: string
  name :: string
  score :: string
  strand :: string
  thickStart :: string
  thickEnd :: string
  itemRgb :: string
  blockCount :: string
  blockSizes :: string
  blockStarts :: string

text \<open>The attributes the constructor sets. The attributes \<^verbatim>\<open>chrom\<close> and
  \<^verbatim>\<open>strand\<close> of the object are \<open>self_chrom\<close> and \<open>self_strand\<close>, since the
  tuple has fields of the same names.\<close>

record BedLine =
  bed_tuple :: BedTuple
  gene_name :: string
  self_chrom :: string
  chrom_start :: int
  self_strand :: string
  exons :: "(int \<times> int) list"
  exon_lens :: "int list"
  num_exons :: int
  cds_len :: int
  five_ss_len :: int

text \<open>The argument of the constructor: a \<^verbatim>\<open>str\<close>, a \<^verbatim>\<open>list\<close> of
  strings, or a value of any other type.\<close>

datatype py_line = PyStr string | PyList "string list" | PyOther

subsection \<open>\_filter\_utr\<close>

text \<open>One iteration of the loop over the exons: the interval appended to
  \<^verbatim>\<open>filtered_exons\<close>, if any, in the order of the \<^verbatim>\<open>if/elif\<close> chain.\<close>

definition filter_exon :: "int \<Rightarrow> int \<Rightarrow> int \<times> int \<Rightarrow> (int \<times> int) list" where
  "filter_exon coding_start coding_end exon =
     (if fst exon > coding_end \<and> snd exon > coding_end then []
      else if fst exon < coding_start \<and> snd exon < coding_start then []
      else if fst exon \<le> coding_start \<and> snd exon \<ge> coding_end
        then [(coding_start, coding_end)]
      else if fst exon \<le> coding_start \<and> snd exon < coding_end
        then [(coding_start, snd exon)]
      else if fst exon > coding_start \<and> snd exon \<ge> coding_end
        then [(fst exon, coding_end)]
      else if fst exon > coding_start \<and> snd exon < coding_end
        then [exon]
      else [])"

text \<open>The part of \<^verbatim>\<open>_filter_utr\<close> after the two boundaries are parsed.\<close>

definition filter_coding :: "int \<Rightarrow> int \<Rightarrow> (int \<times> int) list \<Rightarrow> (int \<times> int) list" where
  "filter_coding coding_start coding_end ex =
     (if coding_end - coding_start < 3 then []
      else concat (map (filter_exon coding_start coding_end) ex))"

definition filter_utr :: "BedTuple \<Rightarrow> (int \<times> int) list \<Rightarrow> py_error + (int \<times> int) list" where
  "filter_utr bt ex =
     (case py_int (thickStart bt) of
        None \<Rightarrow> Inl ValueError
      | Some coding_start \<Rightarrow>
          (case py_int (thickEnd bt) of
             None \<Rightarrow> Inl ValueError
           | Some coding_end \<Rightarrow> Inr (filter_coding coding_start coding_end ex)))"

subsection \<open>\_init\_exons and the constructor\<close>

text \<open>The attributes \<^verbatim>\<open>_init_exons\<close> derives from the filtered exons.\<close>

definition set_exons :: "BedTuple \<Rightarrow> int \<Rightarrow> (int \<times> int) list \<Rightarrow> BedLine" where
  "set_exons bt cstart no_utr_exons =
     (let lens = map (\<lambda>e. snd e - fst e) no_utr_exons;
          n = int (length no_utr_exons)
      in \<lparr> bed_tuple = bt, gene_name = name bt, self_chrom = chrom bt,
           chrom_start = cstart, self_strand = strand bt,
           exons = no_utr_exons, exon_lens = lens, num_exons = n,
           cds_len = sum_list lens, five_ss_len = 2 * (n - 1) \<rparr>)"

text \<open>The raw exons: \<^verbatim>\<open>exon_sizes[i]\<close> raises IndexError when the list of
  sizes is shorter than the list of starts; further sizes are never read.\<close>

definition raw_exons :: "int list \<Rightarrow> int list \<Rightarrow> py_error + (int \<times> int) list" where
  "raw_exons exon_starts exon_sizes =
     (if length exon_sizes < length exon_starts then Inl IndexError
      else Inr (map (\<lambda>i. (exon_starts ! i, exon_starts ! i + exon_sizes ! i))
                  [0 ..< length exon_starts]))"

definition init_exons :: "BedTuple \<Rightarrow> int \<Rightarrow> py_error + BedLine" where
  "init_exons bt cstart =
     (case int_list (split CHR '','' (strip CHR '','' (blockStarts bt))) of
        None \<Rightarrow> Inl ValueError
      | Some offsets \<Rightarrow>
          (case int_list (split CHR '','' (strip CHR '','' (blockSizes bt))) of
             None \<Rightarrow> Inl ValueError
           | Some exon_sizes \<Rightarrow>
               (case raw_exons (map (\<lambda>s. cstart + s) offsets) exon_sizes of
                  Inl e \<Rightarrow> Inl e
                | Inr ex \<Rightarrow>
                    (case filter_utr bt ex of
                       Inl e \<Rightarrow> Inl e
                     | Inr no_utr_exons \<Rightarrow> Inr (set_exons bt cstart no_utr_exons)))))"

text \<open>\<^verbatim>\<open>BedTuple(**dict(zip(BedTuple._fields, line)))\<close>: \<^verbatim>\<open>zip\<close> stops
  at the shorter argument, so fields after the twelfth are dropped, and with fewer
  than twelve the named tuple misses an argument, a TypeError.\<close>

fun make_bed_tuple :: "string list \<Rightarrow> py_error + BedTuple" where
  "make_bed_tuple (f0 # f1 # f2 # f3 # f4 # f5 # f6 # f7 # f8 # f9 # f10 # f11 # rest) =
     Inr \<lparr> chrom = f0, chromStart = f1, chromEnd = f2, name = f3, score = f4,
           strand = f5, thickStart = f6, thickEnd = f7, itemRgb = f8,
           blockCount = f9, blockSizes = f10, blockStarts = f11 \<rparr>"
| "make_bed_tuple fs = Inl TypeError"

definition init_fields :: "string list \<Rightarrow> py_error + BedLine" where
  "init_fields line =
     (case make_bed_tuple line of
        Inl e \<Rightarrow> Inl e
      | Inr bt \<Rightarrow>
          (case py_int (chromStart bt) of
             None \<Rightarrow> Inl ValueError
           | Some cstart \<Rightarrow> init_exons bt cstart))"

definition BedLine_init :: "py_line \<Rightarrow> py_error + BedLine" where
  "BedLine_init line =
     (case line of
        PyStr s \<Rightarrow> init_fields (split CHR 0x09 s)
      | PyList fs \<Rightarrow> init_fields fs
      | PyOther \<Rightarrow> Inl ValueError)"

subsection \<open>query\_position\<close>

text \<open>The loop over \<^verbatim>\<open>enumerate(self.exons)\<close>: \<open>i\<close> is the index of the
  head of the remaining exons and \<open>pos\<close> the variable of that name. Only the first
  branch returns from inside the loop.\<close>

fun scan :: "BedLine \<Rightarrow> string \<Rightarrow> int \<Rightarrow> nat \<Rightarrow> (int \<times> int) list \<Rightarrow> int option \<Rightarrow> int option" where
  "scan b strd genome_coord i [] pos = pos"
| "scan b strd genome_coord i ((estart, eend) # rest) pos =
     (if estart \<le> genome_coord \<and> genome_coord < eend
        then Some (sum_list (take i (exon_lens b)) + (genome_coord - estart))
      else if (eend \<le> genome_coord \<and> genome_coord < eend + 2) \<and> int i \<noteq> num_exons b - 1
        then scan b strd genome_coord (Suc i) rest
               (if strd = ''+''
                  then Some (cds_len b + 2 * int i + (genome_coord - eend))
                else if strd = ''-''
                  then Some (cds_len b + five_ss_len b + 2 * (num_exons b - (int i + 2))
                             + (genome_coord - eend))
                else pos)
      else if (estart - 2 \<le> genome_coord \<and> genome_coord < estart) \<and> i \<noteq> 0
        then scan b strd genome_coord (Suc i) rest
               (if strd = ''-''
                  then Some (cds_len b + 2 * (num_exons b - (int i + 2))
                             + (genome_coord - (estart - 2)))
                else if strd = ''+''
                  then Some (cds_len b + five_ss_len b + 2 * (int i - 1)
                             + (genome_coord - (estart - 2)))
                else pos)
      else scan b strd genome_coord (Suc i) rest pos)"

definition query_position :: "BedLine \<Rightarrow> string \<Rightarrow> string \<Rightarrow> int \<Rightarrow> int option" where
  "query_position b strd chr genome_coord =
     (if chr \<noteq> self_chrom b then None
      else scan b strd genome_coord 0 (exons b) None)"

subsection \<open>The scan as the specification describes it\<close>

text \<open>The coordinate lies in the interior of an exon, case (a) of the scan.\<close>

definition interior :: "int \<Rightarrow> int \<times> int \<Rightarrow> bool" where
  "interior genome_coord exon = (fst exon \<le> genome_coord \<and> genome_coord < snd exon)"

text \<open>
  The candidate position of iteration \<open>i\<close>, in the words of the specification:
  case (b), the two bases after the exon when \<open>i\<close> is not the last index, and
  case (c), the two bases before the exon when \<open>i\<close> is not the first index, each
  with its formula for the plus and for the minus strand. No candidate is computed in
  the interior of the exon, outside both windows, or for another strand.
\<close>

definition splice_candidate :: "BedLine \<Rightarrow> string \<Rightarrow> int \<Rightarrow> nat \<times> (int \<times> int) \<Rightarrow> int option" where
  "splice_candidate b strd genome_coord ie =
     (let i = int (fst ie); estart = fst (snd ie); eend = snd (snd ie) in
      if interior genome_coord (snd ie) then None
      else if eend \<le> genome_coord \<and> genome_coord < eend + 2 \<and> i \<noteq> num_exons b - 1 then
        (if strd = ''+'' then Some (cds_len b + 2 * i + (genome_coord - eend))
         else if strd = ''-'' then
           Some (cds_len b + five_ss_len b + 2 * (num_exons b - (i + 2)) + (genome_coord - eend))
         else None)
      else if estart - 2 \<le> genome_coord \<and> genome_coord < estart \<and> i \<noteq> 0 then
        (if strd = ''-'' then
           Some (cds_len b + 2 * (num_exons b - (i + 2)) + (genome_coord - (estart - 2)))
         else if strd = ''+'' then
           Some (cds_len b + five_ss_len b + 2 * (i - 1) + (genome_coord - (estart - 2)))
         else None)
      else None)"

text \<open>All candidates of a scan, in the order of the iterations, and the last of them.\<close>

definition splice_candidates :: "BedLine \<Rightarrow> string \<Rightarrow> int \<Rightarrow> int list" where
  "splice_candidates b strd genome_coord =
     List.map_filter (splice_candidate b strd genome_coord) (enumerate 0 (exons b))"

definition last_candidate :: "BedLine \<Rightarrow> string \<Rightarrow> int \<Rightarrow> int option" where
  "last_candidate b strd genome_coord =
     (let cs = splice_candidates b strd genome_coord
      in if cs = [] then None else Some (last cs))"

subsection \<open>Genes used as examples\<close>

text \<open>A plus-strand gene on \<^verbatim>\<open>chr1\<close> whose two exons \<open>[100,200)\<close> and
  \<open>[300,400)\<close> are coding throughout.\<close>

definition two_exon_fields :: "string list" where
  "two_exon_fields =
     [''chr1'', ''100'', ''400'', ''GENE2'', ''0'', ''+'', ''100'', ''400'', ''0'', ''2'',
      ''100,100,'', ''0,200,'']"

definition two_exon_gene :: BedLine where
  "two_exon_gene =
     set_exons \<lparr> chrom = ''chr1'', chromStart = ''100'', chromEnd = ''400'',
                 name = ''GENE2'', score = ''0'', strand = ''+'', thickStart = ''100'',
                 thickEnd = ''400'', itemRgb = ''0'', blockCount = ''2'',
                 blockSizes = ''100,100,'', blockStarts = ''0,200,'' \<rparr>
       100 [(100, 200), (300, 400)]"

text \<open>A plus-strand gene on \<^verbatim>\<open>chr1\<close> with the single coding exon
  \<open>[1000,2000)\<close>.\<close>

definition one_exon_fields :: "string list" where
  "one_exon_fields =
     [''chr1'', ''1000'', ''2000'', ''GENE1'', ''0'', ''+'', ''1000'', ''2000'', ''0'', ''1'',
      ''1000,'', ''0,'']"

definition one_exon_gene :: BedLine where
  "one_exon_gene =
     set_exons \<lparr> chrom = ''chr1'', chromStart = ''1000'', chromEnd = ''2000'',
                 name = ''GENE1'', score = ''0'', strand = ''+'', thickStart = ''1000'',
                 thickEnd = ''2000'', itemRgb = ''0'', blockCount = ''1'',
                 blockSizes = ''1000,'', blockStarts = ''0,'' \<rparr>
       1000 [(1000, 2000)]"

text \<open>A record whose coding region \<open>[100,102)\<close> is shorter than one codon.\<close>

definition short_cds_fields :: "string list" where
  "short_cds_fields =
     [''chr1'', ''100'', ''400'', ''PSEUDO'', ''0'', ''-'', ''100'', ''102'', ''0'', ''2'',
      ''100,100,'', ''0,200,'']"

definition short_cds_gene :: BedLine where
  "short_cds_gene =
     set_exons \<lparr> chrom = ''chr1'', chromStart = ''100'', chromEnd = ''400'',
                 name = ''PSEUDO'', score = ''0'', strand = ''-'', thickStart = ''100'',
                 thickEnd = ''102'', itemRgb = ''0'', blockCount = ''2'',
                 blockSizes = ''100,100,'', blockStarts = ''0,200,'' \<rparr>
       100 []"

text \<open>A gene whose two coding exons \<open>[10,20)\<close> and \<open>[22,30)\<close> are separated by
  an intron of two bases, so that the window after the first exon and the window before
  the second are the same two bases.\<close>

definition short_intron_fields :: "string list" where
  "short_intron_fields =
     [''chr1'', ''10'', ''30'', ''TINY'', ''0'', ''+'', ''10'', ''30'', ''0'', ''2'',
      ''10,8'', ''0,12'']"

definition short_intron_gene :: BedLine where
  "short_intron_gene =
     set_exons \<lparr> chrom = ''chr1'', chromStart = ''10'', chromEnd = ''30'',
                 name = ''TINY'', score = ''0'', strand = ''+'', thickStart = ''10'',
                 thickEnd = ''30'', itemRgb = ''0'', blockCount = ''2'',
                 blockSizes = ''10,8'', blockStarts = ''0,12'' \<rparr>
       10 [(10, 20), (22, 30)]"

text \<open>A gene whose first exon \<open>[50,200)\<close> ends where the coding region
  \<open>[200,500)\<close> starts and whose third exon \<open>[500,600)\<close> starts where it ends;
  only the second exon \<open>[300,400)\<close> has coding bases.\<close>

definition touching_fields :: "string list" where
  "touching_fields =
     [''chr1'', ''50'', ''600'', ''EDGE'', ''0'', ''+'', ''200'', ''500'', ''0'', ''3'',
      ''150,100,100,'', ''0,250,450,'']"

definition touching_gene :: BedLine where
  "touching_gene =
     set_exons \<lparr> chrom = ''chr1'', chromStart = ''50'', chromEnd = ''600'',
                 name = ''EDGE'', score = ''0'', strand = ''+'', thickStart = ''200'',
                 thickEnd = ''500'', itemRgb = ''0'', blockCount = ''3'',
                 blockSizes = ''150,100,100,'', blockStarts = ''0,250,450,'' \<rparr>
       50 [(200, 200), (300, 400), (500, 500)]"

text \<open>The two-exon record with a thirteenth field, and with one block size for two
  block starts.\<close>

definition thirteen_fields :: "string list" where
  "thirteen_fields = two_exon_fields @ [''extra'']"

definition short_sizes_fields :: "string list" where
  "short_sizes_fields =
     [''chr1'', ''100'', ''400'', ''GENE2'', ''0'', ''+'', ''100'', ''400'', ''0'', ''2'',
      ''100,'', ''0,200,'']"

text \<open>The two-exon record as one tab-separated string, with the block count 2 of its
  lists and with a block count of 7.\<close>

definition two_exon_line :: "string \<Rightarrow> string" where
  "two_exon_line block_count =
     ''chr1'' @ CHR 0x09 # ''100'' @ CHR 0x09 # ''400'' @ CHR 0x09 # ''GENE2'' @ CHR 0x09 #
     ''0'' @ CHR 0x09 # ''+'' @ CHR 0x09 # ''100'' @ CHR 0x09 # ''400'' @ CHR 0x09 # ''0'' @
     CHR 0x09 # block_count @ CHR 0x09 # ''100,100,'' @ CHR 0x09 # ''0,200,''"

subsection \<open>Notions used to state the properties\<close>

text \<open>Coding exons of positive length, sorted ascending and not overlapping.\<close>

fun sorted_disjoint :: "(int \<times> int) list \<Rightarrow> bool" where
  "sorted_disjoint [] = True"
| "sorted_disjoint [x] = (fst x < snd x)"
| "sorted_disjoint (x # y # rest) = (fst x < snd x \<and> snd x \<le> fst y \<and> sorted_disjoint (y # rest))"

text \<open>The fields of the argument of the constructor, when it is a string or a list.\<close>

definition fields_of :: "py_line \<Rightarrow> string list option" where
  "fields_of line =
     (case line of PyStr s \<Rightarrow> Some (split CHR 0x09 s) | PyList fs \<Rightarrow> Some fs | PyOther \<Rightarrow> None)"

text \<open>The entries of a comma-separated list, \<^verbatim>\<open>s.strip(',').split(',')\<close>.\<close>

definition entries :: "string \<Rightarrow> string list" where
  "entries s = split CHR '','' (strip CHR '','' s)"

text \<open>The object with another raw \<^verbatim>\<open>blockCount\<close> field in its tuple.\<close>

definition with_blockCount :: "string \<Rightarrow> BedLine \<Rightarrow> BedLine" where
  "with_blockCount bc b = b\<lparr>bed_tuple := (bed_tuple b)\<lparr>blockCount := bc\<rparr>\<rparr>"

section \<open>Properties\<close>

subsection \<open>What the constructor establishes\<close>

lemma init_fields_result:
  assumes "init_fields fs = Inr b"
  shows "\<exists>coding_start coding_end ex.
           py_int (thickStart (bed_tuple b)) = Some coding_start \<and>
           py_int (thickEnd (bed_tuple b)) = Some coding_end \<and>
           b = set_exons (bed_tuple b) (chrom_start b)
                 (filter_coding coding_start coding_end ex)"
  using assms
  by (auto simp: init_fields_def init_exons_def filter_utr_def set_exons_def Let_def
           split: sum.splits option.splits)

lemma BedLine_init_result:
  assumes "BedLine_init line = Inr b"
  shows "\<exists>coding_start coding_end ex.
           py_int (thickStart (bed_tuple b)) = Some coding_start \<and>
           py_int (thickEnd (bed_tuple b)) = Some coding_end \<and>
           b = set_exons (bed_tuple b) (chrom_start b)
                 (filter_coding coding_start coding_end ex)"
proof (cases line)
  case (PyStr s)
  with assms have "init_fields (split CHR 0x09 s) = Inr b" by (simp add: BedLine_init_def)
  then show ?thesis by (rule init_fields_result)
next
  case (PyList fs)
  with assms have "init_fields fs = Inr b" by (simp add: BedLine_init_def)
  then show ?thesis by (rule init_fields_result)
next
  case PyOther
  with assms show ?thesis by (simp add: BedLine_init_def)
qed

lemma set_exons_fields:
  "exons (set_exons bt c ex) = ex"
  "exon_lens (set_exons bt c ex) = map (\<lambda>e. snd e - fst e) ex"
  "num_exons (set_exons bt c ex) = int (length ex)"
  "cds_len (set_exons bt c ex) = sum_list (map (\<lambda>e. snd e - fst e) ex)"
  "five_ss_len (set_exons bt c ex) = 2 * (int (length ex) - 1)"
  "self_chrom (set_exons bt c ex) = chrom bt"
  "bed_tuple (set_exons bt c ex) = bt"
  by (simp_all add: set_exons_def Let_def)

lemma BedLine_init_derived:
  assumes "BedLine_init line = Inr b"
  shows "exon_lens b = map (\<lambda>e. snd e - fst e) (exons b)"
    and "num_exons b = int (length (exons b))"
    and "cds_len b = sum_list (map (\<lambda>e. snd e - fst e) (exons b))"
    and "five_ss_len b = 2 * (int (length (exons b)) - 1)"
proof -
  from BedLine_init_result [OF assms] obtain bt c ex where b: "b = set_exons bt c ex"
    by blast
  show "exon_lens b = map (\<lambda>e. snd e - fst e) (exons b)"
    and "num_exons b = int (length (exons b))"
    and "cds_len b = sum_list (map (\<lambda>e. snd e - fst e) (exons b))"
    and "five_ss_len b = 2 * (int (length (exons b)) - 1)"
    by (simp_all add: b set_exons_fields)
qed

lemma two_exon_parsed: "BedLine_init (PyList two_exon_fields) = Inr two_exon_gene"
  by code_simp

lemma one_exon_parsed: "BedLine_init (PyList one_exon_fields) = Inr one_exon_gene"
  by code_simp

subsection \<open>Chromosome mismatch\<close>

text \<open>
  Claim C7. For every gene model, strand and coordinate, a query whose chromosome
  argument differs from the chromosome of the gene returns null: the check comes before
  the loop over the exons, so the exons play no part in the result.
\<close>

theorem query_position_wrong_chromosome:
  "chr \<noteq> self_chrom b \<Longrightarrow> query_position b strd chr genome_coord = None"
  by (simp add: query_position_def)

theorem query_position_wrong_chromosome_witness:
  "''chr2'' \<noteq> self_chrom two_exon_gene \<and>
   query_position two_exon_gene ''+'' ''chr2'' 150 = None \<and>
   query_position two_exon_gene ''+'' ''chr1'' 150 = Some 50"
proof -
  have h: "''chr2'' \<noteq> self_chrom two_exon_gene"
    by (simp add: two_exon_gene_def set_exons_fields)
  have "query_position two_exon_gene ''+'' ''chr1'' 150 = Some 50"
    by code_simp
  with h query_position_wrong_chromosome [OF h, of "''+''" 150] show ?thesis
    by simp
qed

subsection \<open>A coding region shorter than a codon\<close>

text \<open>
  Claim C6. For every gene model the constructor returns, if the coding boundary
  satisfies \<open>thickEnd - thickStart < 3\<close>, the list of coding exons is empty and
  \<^verbatim>\<open>query_position\<close> returns null for every strand, chromosome and coordinate.
\<close>

theorem short_coding_region_not_queryable:
  assumes "BedLine_init line = Inr b"
    and "py_int (thickStart (bed_tuple b)) = Some coding_start"
    and "py_int (thickEnd (bed_tuple b)) = Some coding_end"
    and "coding_end - coding_start < 3"
  shows "exons b = [] \<and> query_position b strd chr genome_coord = None"
proof -
  from BedLine_init_result [OF assms(1)] obtain cs ce ex
    where "py_int (thickStart (bed_tuple b)) = Some cs"
      and "py_int (thickEnd (bed_tuple b)) = Some ce"
      and b: "b = set_exons (bed_tuple b) (chrom_start b) (filter_coding cs ce ex)"
    by blast
  with assms(2,3) have "cs = coding_start" "ce = coding_end" by simp_all
  with assms(4) have "filter_coding cs ce ex = []" by (simp add: filter_coding_def)
  with b have "exons b = []" by (metis set_exons_fields(1))
  then show ?thesis by (simp add: query_position_def)
qed

theorem short_coding_region_not_queryable_witness:
  "BedLine_init (PyList short_cds_fields) = Inr short_cds_gene \<and>
   py_int (thickStart (bed_tuple short_cds_gene)) = Some 100 \<and>
   py_int (thickEnd (bed_tuple short_cds_gene)) = Some 102 \<and>
   (102 :: int) - 100 < 3 \<and>
   exons short_cds_gene = [] \<and>
   query_position short_cds_gene ''-'' ''chr1'' 150 = None"
proof -
  have p: "BedLine_init (PyList short_cds_fields) = Inr short_cds_gene"
    by code_simp
  have s: "py_int (thickStart (bed_tuple short_cds_gene)) = Some 100"
    by code_simp
  have e: "py_int (thickEnd (bed_tuple short_cds_gene)) = Some 102"
    by code_simp
  have d: "(102 :: int) - 100 < 3" by simp
  from short_coding_region_not_queryable [OF p s e d, of "''-''" "''chr1''" 150] p s e
  show ?thesis by simp
qed

subsection \<open>The loop of query\_position\<close>

lemma scan_interior:
  assumes "list_all (\<lambda>ex. \<not> interior g ex) pre" and "s \<le> g" and "g < e"
  shows "scan b strd g i (pre @ (s, e) # post) pos =
           Some (sum_list (take (i + length pre) (exon_lens b)) + (g - s))"
  using assms
proof (induction pre arbitrary: i pos)
  case Nil
  then show ?case by simp
next
  case (Cons x pre)
  obtain xs xe where x: "x = (xs, xe)" by (cases x)
  from Cons.prems have nx: "\<not> (xs \<le> g \<and> g < xe)" and rest: "list_all (\<lambda>ex. \<not> interior g ex) pre"
    by (simp_all add: x interior_def)
  have step: "\<And>p. scan b strd g (Suc i) (pre @ (s, e) # post) p =
                  Some (sum_list (take (Suc i + length pre) (exon_lens b)) + (g - s))"
    using Cons.IH [OF rest Cons.prems(2,3)] .
  show ?case using nx by (auto simp: x step)
qed

lemma scan_unknown_strand:
  assumes "strd \<noteq> ''+''" and "strd \<noteq> ''-''"
    and "list_all (\<lambda>ex. \<not> interior g ex) es"
  shows "scan b strd g i es pos = pos"
  using assms
proof (induction es arbitrary: i)
  case Nil
  then show ?case by simp
next
  case (Cons x es)
  obtain xs xe where x: "x = (xs, xe)" by (cases x)
  with Cons show ?case by (auto simp: interior_def)
qed

lemma scan_strand_irrelevant:
  assumes "\<not> list_all (\<lambda>ex. \<not> interior g ex) es"
  shows "scan b strd g i es pos = scan b strd' g i es pos'"
  using assms
proof (induction es arbitrary: i pos pos')
  case Nil
  then show ?case by simp
next
  case (Cons x es)
  obtain xs xe where x: "x = (xs, xe)" by (cases x)
  show ?case
  proof (cases "xs \<le> g \<and> g < xe")
    case True
    then show ?thesis by (simp add: x)
  next
    case False
    with Cons.prems have "\<not> list_all (\<lambda>ex. \<not> interior g ex) es"
      by (simp add: x interior_def)
    then have "\<And>p p'. scan b strd g (Suc i) es p = scan b strd' g (Suc i) es p'"
      by (rule Cons.IH)
    with False show ?thesis by (auto simp: x)
  qed
qed

lemma short_intron_parsed: "BedLine_init (PyList short_intron_fields) = Inr short_intron_gene"
  by code_simp

lemma scan_last_candidate:
  assumes "list_all (\<lambda>ex. \<not> interior g ex) es"
  shows "scan b strd g i es pos =
           (let cs = List.map_filter (splice_candidate b strd g) (enumerate i es)
            in if cs = [] then pos else Some (last cs))"
  using assms
proof (induction es arbitrary: i pos)
  case Nil
  then show ?case by simp
next
  case (Cons x es)
  obtain xs xe where x: "x = (xs, xe)" by (cases x)
  from Cons.prems have nx: "\<not> (xs \<le> g \<and> g < xe)" and rest: "list_all (\<lambda>ex. \<not> interior g ex) es"
    by (simp_all add: x interior_def)
  note IH = Cons.IH [OF rest]
  show ?case using nx
    by (auto simp: x IH Let_def splice_candidate_def interior_def)
qed

text \<open>
  Claim C1. In the loop of \<^verbatim>\<open>query_position\<close> only the interior of a coding
  exon returns at once: when the coordinate lies in the interior of an exon and of none
  before it, the result is the sum of the lengths of the exons before it plus the
  offset in the exon, whatever the exons after it are and whatever candidates the
  exons before it produced. When the coordinate lies in the interior of no exon, the
  result is the last candidate that a splice window produced during the scan, or null
  when there was none; so with several candidates the last one wins, not the first.
\<close>

theorem query_position_first_interior_last_candidate:
  assumes "BedLine_init line = Inr b"
  shows "(exons b = pre @ (s, e) # post \<and> list_all (\<lambda>ex. \<not> interior g ex) pre \<and> interior g (s, e)
            \<longrightarrow> query_position b strd (self_chrom b) g
                  = Some (sum_list (map (\<lambda>ex. snd ex - fst ex) pre) + (g - s)))
       \<and> (list_all (\<lambda>ex. \<not> interior g' ex) (exons b)
            \<longrightarrow> query_position b strd (self_chrom b) g' = last_candidate b strd g')"
proof (intro conjI impI)
  assume a: "exons b = pre @ (s, e) # post \<and> list_all (\<lambda>ex. \<not> interior g ex) pre \<and> interior g (s, e)"
  then have "scan b strd g 0 (exons b) None
               = Some (sum_list (take (0 + length pre) (exon_lens b)) + (g - s))"
    by (simp add: scan_interior interior_def)
  moreover have "take (length pre) (exon_lens b) = map (\<lambda>ex. snd ex - fst ex) pre"
    using a by (simp add: BedLine_init_derived(1) [OF assms])
  ultimately show "query_position b strd (self_chrom b) g
                     = Some (sum_list (map (\<lambda>ex. snd ex - fst ex) pre) + (g - s))"
    by (simp add: query_position_def)
next
  assume "list_all (\<lambda>ex. \<not> interior g' ex) (exons b)"
  then show "query_position b strd (self_chrom b) g' = last_candidate b strd g'"
    by (simp add: query_position_def scan_last_candidate last_candidate_def
          splice_candidates_def)
qed

theorem query_position_first_interior_last_candidate_witness:
  "BedLine_init (PyList short_intron_fields) = Inr short_intron_gene \<and>
   exons short_intron_gene = [(10, 20)] @ (22, 30) # [] \<and>
   list_all (\<lambda>ex. \<not> interior 25 ex) [(10, 20)] \<and> interior 25 (22, 30) \<and>
   query_position short_intron_gene ''+'' (self_chrom short_intron_gene) 25 = Some 13 \<and>
   list_all (\<lambda>ex. \<not> interior 20 ex) (exons short_intron_gene) \<and>
   splice_candidates short_intron_gene ''+'' 20 = [18, 20] \<and>
   query_position short_intron_gene ''+'' (self_chrom short_intron_gene) 20 = Some 20"
proof -
  have e: "exons short_intron_gene = [(10, 20)] @ (22, 30) # []"
    by code_simp
  have i: "list_all (\<lambda>ex. \<not> interior 25 ex) [(10, 20)]" "interior 25 (22, 30)"
    by (simp_all add: interior_def)
  have n: "list_all (\<lambda>ex. \<not> interior 20 ex) (exons short_intron_gene)"
    by code_simp
  have c: "splice_candidates short_intron_gene ''+'' 20 = [18, 20]"
    by code_simp
  from query_position_first_interior_last_candidate [OF short_intron_parsed,
      of "[(10, 20)]" 22 30 "[]" 25 "''+''" 20] e i n c short_intron_parsed
  show ?thesis by (simp add: last_candidate_def)
qed

subsection \<open>The strand argument\<close>

text \<open>
  Claim C9. The strand argument of \<^verbatim>\<open>query_position\<close> matters for splice
  windows only. For every gene model, chromosome and coordinate in the interior of some
  coding exon, any two strand arguments give the same result. For a strand argument that
  is neither \<^verbatim>\<open>'+'\<close> nor \<^verbatim>\<open>'-'\<close>, a coordinate in the interior of no coding
  exon gives null, since no candidate is ever assigned.
\<close>

theorem query_position_strand_noninterference:
  "(list_ex (interior g) (exons b)
      \<longrightarrow> query_position b strd chr g = query_position b strd' chr g)
   \<and> (strd \<noteq> ''+'' \<and> strd \<noteq> ''-'' \<and> list_all (\<lambda>ex. \<not> interior g' ex) (exons b)
      \<longrightarrow> query_position b strd chr g' = None)"
proof (intro conjI impI)
  assume "list_ex (interior g) (exons b)"
  then have "\<not> list_all (\<lambda>ex. \<not> interior g ex) (exons b)"
    by (simp add: list_ex_iff list_all_iff)
  then have "scan b strd g 0 (exons b) None = scan b strd' g 0 (exons b) None"
    by (rule scan_strand_irrelevant)
  then show "query_position b strd chr g = query_position b strd' chr g"
    by (simp add: query_position_def)
next
  assume "strd \<noteq> ''+'' \<and> strd \<noteq> ''-'' \<and> list_all (\<lambda>ex. \<not> interior g' ex) (exons b)"
  then have "scan b strd g' 0 (exons b) None = None"
    by (simp add: scan_unknown_strand)
  then show "query_position b strd chr g' = None"
    by (simp add: query_position_def)
qed

theorem query_position_strand_noninterference_witness:
  "list_ex (interior 150) (exons two_exon_gene) \<and>
   query_position two_exon_gene ''+'' ''chr1'' 150 = Some 50 \<and>
   query_position two_exon_gene ''.'' ''chr1'' 150 = Some 50 \<and>
   ''.'' \<noteq> ''+'' \<and> ''.'' \<noteq> ''-'' \<and>
   list_all (\<lambda>ex. \<not> interior 200 ex) (exons two_exon_gene) \<and>
   query_position two_exon_gene ''.'' ''chr1'' 200 = None \<and>
   query_position two_exon_gene ''+'' ''chr1'' 200 = Some 200"
proof -
  have i: "list_ex (interior 150) (exons two_exon_gene)"
    by code_simp
  have n: "list_all (\<lambda>ex. \<not> interior 200 ex) (exons two_exon_gene)"
    by code_simp
  have p: "query_position two_exon_gene ''+'' ''chr1'' 150 = Some 50"
    "query_position two_exon_gene ''+'' ''chr1'' 200 = Some 200"
    by code_simp+
  from query_position_strand_noninterference
         [where g = 150 and b = two_exon_gene and strd = "''.''" and strd' = "''+''"
            and chr = "''chr1''" and g' = 200] i n p
  show ?thesis by simp
qed

subsection \<open>The worked examples\<close>

lemma single_exon_query:
  assumes "BedLine_init line = Inr b" and "exons b = [(s, e)]"
  shows "query_position b strd (self_chrom b) g
           = (if s \<le> g \<and> g < e then Some (g - s) else None)"
  using BedLine_init_derived(2) [OF assms(1)] assms(2)
  by (simp add: query_position_def)

text \<open>
  Claim C8. For a gene with the single coding exon \<open>[1000, 2000)\<close>, a plus-strand
  query on the gene's chromosome returns 0 at coordinate 1000, 999 at coordinate 1999
  and null at coordinate 2000. The window after the exon is suppressed at the last index
  and the window before it at the first, and the only exon is both: a single-exon gene
  has no splice window, so every coordinate outside the exon gives null for every
  strand.
\<close>

theorem single_exon_example:
  assumes "BedLine_init line = Inr b" and "exons b = [(1000, 2000)]"
  shows "query_position b ''+'' (self_chrom b) 1000 = Some 0
       \<and> query_position b ''+'' (self_chrom b) 1999 = Some 999
       \<and> query_position b ''+'' (self_chrom b) 2000 = None
       \<and> (\<not> interior g (1000, 2000) \<longrightarrow> query_position b strd (self_chrom b) g = None)"
  by (simp add: single_exon_query [OF assms] interior_def)

theorem single_exon_example_witness:
  "BedLine_init (PyList one_exon_fields) = Inr one_exon_gene
   \<and> exons one_exon_gene = [(1000, 2000)]
   \<and> query_position one_exon_gene ''+'' (self_chrom one_exon_gene) 1000 = Some 0
   \<and> query_position one_exon_gene ''+'' (self_chrom one_exon_gene) 1999 = Some 999
   \<and> query_position one_exon_gene ''+'' (self_chrom one_exon_gene) 2000 = None
   \<and> \<not> interior 998 (1000, 2000)
   \<and> query_position one_exon_gene ''-'' (self_chrom one_exon_gene) 998 = None"
proof -
  have e: "exons one_exon_gene = [(1000, 2000)]"
    by code_simp
  have i: "\<not> interior 998 (1000, 2000)"
    by (simp add: interior_def)
  from single_exon_example [OF one_exon_parsed e, of 998 "''-''"] one_exon_parsed e i
  show ?thesis by simp
qed

text \<open>
  Claim C4. For a gene with the two coding exons \<open>[100,200)\<close> and \<open>[300,400)\<close> the
  coding length is 200, the exon count 2 and the splice span 2; a plus-strand query on
  the gene's chromosome returns 200 at coordinate 200, which is
  \<open>cds_len + 2 * 0 + (200 - 200)\<close> for the window after exon 0, and 203 at
  coordinate 299, which is \<open>cds_len + splice_span + 2 * (1 - 1) + (299 - (300 - 2))\<close>
  for the window before exon 1.
\<close>

theorem two_exon_example:
  assumes "BedLine_init line = Inr b" and "exons b = [(100, 200), (300, 400)]"
  shows "cds_len b = 200 \<and> num_exons b = 2 \<and> five_ss_len b = 2
       \<and> query_position b ''+'' (self_chrom b) 200 = Some 200
       \<and> query_position b ''+'' (self_chrom b) 200
           = Some (cds_len b + 2 * 0 + (200 - 200))
       \<and> query_position b ''+'' (self_chrom b) 299 = Some 203
       \<and> query_position b ''+'' (self_chrom b) 299
           = Some (cds_len b + five_ss_len b + 2 * (1 - 1) + (299 - (300 - 2)))"
proof -
  have d: "cds_len b = 200" "num_exons b = 2" "five_ss_len b = 2"
    using BedLine_init_derived(2,3,4) [OF assms(1)] assms(2) by simp_all
  then show ?thesis using assms(2) by (simp add: query_position_def)
qed

theorem two_exon_example_witness:
  "BedLine_init (PyList two_exon_fields) = Inr two_exon_gene
   \<and> exons two_exon_gene = [(100, 200), (300, 400)]
   \<and> cds_len two_exon_gene = 200 \<and> num_exons two_exon_gene = 2
   \<and> five_ss_len two_exon_gene = 2
   \<and> query_position two_exon_gene ''+'' ''chr1'' 200 = Some 200
   \<and> query_position two_exon_gene ''+'' ''chr1'' 299 = Some 203"
proof -
  have e: "exons two_exon_gene = [(100, 200), (300, 400)]"
    by code_simp
  have c: "self_chrom two_exon_gene = ''chr1''"
    by code_simp
  from two_exon_example [OF two_exon_parsed e] two_exon_parsed e c
  show ?thesis by simp
qed

subsection \<open>Splice positions of the minus strand\<close>

text \<open>For a gene of \<open>n\<close> coding exons, every plus-strand candidate lies in the
  splice range after the coding positions. A minus-strand candidate can lie up to two
  positions below \<open>cds_len\<close>, and it does so exactly for the window before the last
  exon.\<close>

lemma splice_candidate_plus:
  "splice_candidate b ''+'' g (i, (s, e)) =
     (if s \<le> g \<and> g < e then None
      else if e \<le> g \<and> g < e + 2 \<and> int i \<noteq> num_exons b - 1 then Some (cds_len b + 2 * int i + (g - e))
      else if s - 2 \<le> g \<and> g < s \<and> i \<noteq> 0 then Some (cds_len b + five_ss_len b + 2 * (int i - 1) + (g - (s - 2)))
      else None)"
  by (simp add: splice_candidate_def interior_def Let_def)

lemma splice_candidate_minus:
  "splice_candidate b ''-'' g (i, (s, e)) =
     (if s \<le> g \<and> g < e then None
      else if e \<le> g \<and> g < e + 2 \<and> int i \<noteq> num_exons b - 1
        then Some (cds_len b + five_ss_len b + 2 * (num_exons b - (int i + 2)) + (g - e))
      else if s - 2 \<le> g \<and> g < s \<and> i \<noteq> 0
        then Some (cds_len b + 2 * (num_exons b - (int i + 2)) + (g - (s - 2)))
      else None)"
  by (simp add: splice_candidate_def interior_def Let_def)

lemma splice_candidate_plus_range:
  assumes "num_exons b = int n" and "five_ss_len b = 2 * (int n - 1)" and "i < n"
    and "splice_candidate b ''+'' g (i, ex) = Some p"
  shows "cds_len b \<le> p \<and> p < cds_len b + 2 * five_ss_len b"
proof -
  obtain s e where ex: "ex = (s, e)" by (cases ex)
  from assms(4) show ?thesis
    unfolding ex splice_candidate_plus using assms(1,2,3)
    by (simp split: if_splits)
qed

lemma splice_candidate_minus_range:
  assumes "num_exons b = int n" and "five_ss_len b = 2 * (int n - 1)" and "i < n"
    and "splice_candidate b ''-'' g (i, ex) = Some p"
  shows "cds_len b - 2 \<le> p \<and> p < cds_len b + 2 * five_ss_len b
         \<and> (p < cds_len b \<longleftrightarrow> Suc i = n \<and> fst ex - 2 \<le> g \<and> g < fst ex)"
proof -
  obtain s e where ex: "ex = (s, e)" by (cases ex)
  have n: "int i < int n" using assms(3) by simp
  have suc: "Suc i = n \<longleftrightarrow> int i = int n - 1" by linarith
  consider (a) "s \<le> g \<and> g < e"
    | (b) "\<not> (s \<le> g \<and> g < e)" "e \<le> g \<and> g < e + 2 \<and> int i \<noteq> num_exons b - 1"
    | (c) "\<not> (s \<le> g \<and> g < e)" "\<not> (e \<le> g \<and> g < e + 2 \<and> int i \<noteq> num_exons b - 1)"
          "s - 2 \<le> g \<and> g < s \<and> i \<noteq> 0"
    | (d) "\<not> (s \<le> g \<and> g < e)" "\<not> (e \<le> g \<and> g < e + 2 \<and> int i \<noteq> num_exons b - 1)"
          "\<not> (s - 2 \<le> g \<and> g < s \<and> i \<noteq> 0)"
    by blast
  then show ?thesis
  proof cases
    case a
    then have "splice_candidate b ''-'' g (i, (s, e)) = None"
      unfolding splice_candidate_minus by (simp only: if_True if_False simp_thms)
    with assms(4) show ?thesis by (simp add: ex)
  next
    case b
    then have "splice_candidate b ''-'' g (i, (s, e))
                 = Some (cds_len b + five_ss_len b + 2 * (num_exons b - (int i + 2)) + (g - e))"
      unfolding splice_candidate_minus by (simp only: if_True if_False simp_thms)
    with assms(4) have p: "p = cds_len b + five_ss_len b + 2 * (num_exons b - (int i + 2)) + (g - e)"
      by (simp add: ex)
    from b assms(1) n have i: "int i \<le> int n - 2" and ns: "Suc i \<noteq> n" by auto
    from b have off: "0 \<le> g - e" "g - e < 2" by auto
    have lo: "cds_len b \<le> p" using p i off assms(1,2) by simp
    have hi: "p < cds_len b + 2 * five_ss_len b" using p i off assms(1,2) by simp
    from lo hi ns show ?thesis by simp
  next
    case c
    then have "splice_candidate b ''-'' g (i, (s, e))
                 = Some (cds_len b + 2 * (num_exons b - (int i + 2)) + (g - (s - 2)))"
      unfolding splice_candidate_minus by (simp only: if_True if_False simp_thms)
    with assms(4) have p: "p = cds_len b + 2 * (num_exons b - (int i + 2)) + (g - (s - 2))"
      by (simp add: ex)
    from c have i: "1 \<le> int i" by auto
    from c have off: "0 \<le> g - (s - 2)" "g - (s - 2) < 2" by auto
    have lo: "cds_len b - 2 \<le> p" using p n off assms(1,2) by simp
    have hi: "p < cds_len b + 2 * five_ss_len b" using p i off assms(1,2) by simp
    have "p < cds_len b \<longleftrightarrow> Suc i = n"
    proof
      assume "p < cds_len b"
      with p off assms(1) have "int n - (int i + 2) < 0" by simp
      with n show "Suc i = n" by linarith
    next
      assume "Suc i = n"
      then have "int n = int i + 1" by linarith
      with p off assms(1) show "p < cds_len b" by simp
    qed
    with lo hi c show ?thesis by (simp add: ex)
  next
    case d
    then have "splice_candidate b ''-'' g (i, (s, e)) = None"
      unfolding splice_candidate_minus by (simp only: if_True if_False simp_thms)
    with assms(4) show ?thesis by (simp add: ex)
  qed
qed

text \<open>
  Claim C2 says that, for sorted, disjoint coding exons of positive length and strand
  \<^verbatim>\<open>'+'\<close> or \<^verbatim>\<open>'-'\<close>, a splice-window query never returns a value below
  \<open>cds_len\<close>. The code does: on the two-exon gene with coding length 200, the
  minus-strand query at coordinate 298, in the window before the last exon, returns
  198, the position that the coding base at coordinate 398 has. The formula for this
  window uses \<open>num_exons - (i + 2)\<close>, which is \<open>-1\<close> at the last index.
\<close>

theorem minus_strand_window_before_last_exon_below_cds_len:
  "BedLine_init (PyList two_exon_fields) = Inr two_exon_gene
   \<and> sorted_disjoint (exons two_exon_gene)
   \<and> cds_len two_exon_gene = 200
   \<and> list_all (\<lambda>ex. \<not> interior 298 ex) (exons two_exon_gene)
   \<and> query_position two_exon_gene ''-'' ''chr1'' 298 = Some 198
   \<and> query_position two_exon_gene ''-'' ''chr1'' 299 = Some 199
   \<and> query_position two_exon_gene ''-'' ''chr1'' 398 = Some 198"
proof -
  have "sorted_disjoint (exons two_exon_gene)"
    and "cds_len two_exon_gene = 200"
    and "list_all (\<lambda>ex. \<not> interior 298 ex) (exons two_exon_gene)"
    and "query_position two_exon_gene ''-'' ''chr1'' 298 = Some 198"
    and "query_position two_exon_gene ''-'' ''chr1'' 299 = Some 199"
    and "query_position two_exon_gene ''-'' ''chr1'' 398 = Some 198"
    by code_simp+
  with two_exon_parsed show ?thesis by simp
qed

subsection \<open>Exons that touch the coding boundary\<close>

text \<open>
  Claim C3 says that an exon with \<open>start \<ge> codingEnd\<close> or \<open>end \<le> codingStart\<close>
  adds nothing to the list of coding exons. The first two tests of
  \<^verbatim>\<open>_filter_utr\<close> are strict, so an exon that starts at the coding end, or ends
  at the coding start, reaches a later branch and adds an empty interval. In the gene
  below the coding region \<open>[200,500)\<close> holds one coding exon, \<open>[300,400)\<close>; the
  constructor stores three, and a query in the two bases after the only real coding
  exon returns a splice position.
\<close>

theorem touching_exon_adds_empty_interval:
  "filter_coding 200 500 [(50, 200)] = [(200, 200)]
   \<and> filter_coding 200 500 [(500, 600)] = [(500, 500)]
   \<and> BedLine_init (PyList touching_fields) = Inr touching_gene
   \<and> exons touching_gene = [(200, 200), (300, 400), (500, 500)]
   \<and> num_exons touching_gene = 3
   \<and> query_position touching_gene ''+'' ''chr1'' 400 = Some 102"
proof -
  have "filter_coding 200 500 [(50, 200)] = [(200, 200)]"
    and "filter_coding 200 500 [(500, 600)] = [(500, 500)]"
    and "BedLine_init (PyList touching_fields) = Inr touching_gene"
    and "exons touching_gene = [(200, 200), (300, 400), (500, 500)]"
    and "num_exons touching_gene = 3"
    and "query_position touching_gene ''+'' ''chr1'' 400 = Some 102"
    by code_simp+
  then show ?thesis by simp
qed

subsection \<open>When the constructor raises\<close>

lemma make_bed_tuple_short: "length fs < 12 \<Longrightarrow> make_bed_tuple fs = Inl TypeError"
  by (cases fs rule: make_bed_tuple.cases) auto

lemma make_bed_tuple_long:
  "12 \<le> length fs \<Longrightarrow>
   make_bed_tuple fs =
     Inr \<lparr> chrom = fs ! 0, chromStart = fs ! 1, chromEnd = fs ! 2, name = fs ! 3,
           score = fs ! 4, strand = fs ! 5, thickStart = fs ! 6, thickEnd = fs ! 7,
           itemRgb = fs ! 8, blockCount = fs ! 9, blockSizes = fs ! 10,
           blockStarts = fs ! 11 \<rparr>"
  by (cases fs rule: make_bed_tuple.cases) auto

lemma int_list_length: "int_list ss = Some ns \<Longrightarrow> length ns = length ss"
  by (induction ss arbitrary: ns) (auto split: option.splits)

lemma init_exons_fails_iff:
  "isl (init_exons bt c) \<longleftrightarrow>
     (int_list (entries (blockStarts bt)) = None
      \<or> int_list (entries (blockSizes bt)) = None
      \<or> length (entries (blockSizes bt)) < length (entries (blockStarts bt))
      \<or> py_int (thickStart bt) = None
      \<or> py_int (thickEnd bt) = None)"
proof (cases "int_list (entries (blockStarts bt))")
  case None
  then show ?thesis by (simp add: init_exons_def entries_def)
next
  case starts: (Some offsets)
  show ?thesis
  proof (cases "int_list (entries (blockSizes bt))")
    case None
    with starts show ?thesis by (simp add: init_exons_def entries_def)
  next
    case sizes: (Some exon_sizes)
    have "length offsets = length (entries (blockStarts bt))"
      and "length exon_sizes = length (entries (blockSizes bt))"
      using starts sizes by (simp_all add: int_list_length)
    with starts sizes show ?thesis
      by (auto simp: init_exons_def entries_def raw_exons_def filter_utr_def
               split: option.splits)
  qed
qed

lemma init_fields_fails_iff:
  "isl (init_fields fs) \<longleftrightarrow>
     (length fs < 12
      \<or> py_int (fs ! 1) = None
      \<or> int_list (entries (fs ! 11)) = None
      \<or> int_list (entries (fs ! 10)) = None
      \<or> length (entries (fs ! 10)) < length (entries (fs ! 11))
      \<or> py_int (fs ! 6) = None
      \<or> py_int (fs ! 7) = None)"
proof (cases "length fs < 12")
  case True
  then show ?thesis by (simp add: init_fields_def make_bed_tuple_short)
next
  case False
  then have "12 \<le> length fs" by simp
  then show ?thesis
    by (cases "py_int (fs ! 1)")
       (simp_all add: init_fields_def make_bed_tuple_long init_exons_fails_iff)
qed

text \<open>
  Claim C5, amended. The constructor raises exactly when its argument is neither a string
  nor a list, or has fewer than twelve fields, or one of \<^verbatim>\<open>chromStart\<close>,
  \<^verbatim>\<open>thickStart\<close>, \<^verbatim>\<open>thickEnd\<close> or an entry of \<^verbatim>\<open>blockStarts\<close> or
  \<^verbatim>\<open>blockSizes\<close> is no integer literal, or \<^verbatim>\<open>blockSizes\<close> has fewer
  entries than \<^verbatim>\<open>blockStarts\<close>. Fields after the twelfth are ignored, so every
  record with twelve fields or more, integer literals in these places and at least as
  many sizes as starts is constructed without an error.
\<close>

theorem BedLine_init_fails_iff:
  "isl (BedLine_init line) \<longleftrightarrow>
     (case fields_of line of
        None \<Rightarrow> True
      | Some fs \<Rightarrow>
          length fs < 12
          \<or> py_int (fs ! 1) = None
          \<or> int_list (entries (fs ! 11)) = None
          \<or> int_list (entries (fs ! 10)) = None
          \<or> length (entries (fs ! 10)) < length (entries (fs ! 11))
          \<or> py_int (fs ! 6) = None
          \<or> py_int (fs ! 7) = None)"
  by (cases line) (simp_all add: BedLine_init_def fields_of_def init_fields_fails_iff)

text \<open>
  The claim as it stands fails in both directions: a record of thirteen fields is
  accepted, and a record of twelve fields whose numeric fields are all integer literals
  is refused with an IndexError when it has one block size for two block starts.
\<close>

theorem field_count_counterexample:
  "length thirteen_fields = 13
   \<and> BedLine_init (PyList thirteen_fields) = Inr two_exon_gene
   \<and> length short_sizes_fields = 12
   \<and> py_int (short_sizes_fields ! 1) = Some 100
   \<and> py_int (short_sizes_fields ! 6) = Some 100
   \<and> py_int (short_sizes_fields ! 7) = Some 400
   \<and> int_list (entries (short_sizes_fields ! 10)) = Some [100]
   \<and> int_list (entries (short_sizes_fields ! 11)) = Some [0, 200]
   \<and> BedLine_init (PyList short_sizes_fields) = Inl IndexError"
proof -
  have "length thirteen_fields = 13"
    and "BedLine_init (PyList thirteen_fields) = Inr two_exon_gene"
    and "length short_sizes_fields = 12"
    and "py_int (short_sizes_fields ! 1) = Some 100"
    and "py_int (short_sizes_fields ! 6) = Some 100"
    and "py_int (short_sizes_fields ! 7) = Some 400"
    and "int_list (entries (short_sizes_fields ! 10)) = Some [100]"
    and "int_list (entries (short_sizes_fields ! 11)) = Some [0, 200]"
    and "BedLine_init (PyList short_sizes_fields) = Inl IndexError"
    by code_simp+
  then show ?thesis by simp
qed

subsection \<open>The block count\<close>

lemma set_exons_with_blockCount:
  "set_exons (bt\<lparr>blockCount := bc\<rparr>) c ex = with_blockCount bc (set_exons bt c ex)"
  by (simp add: set_exons_def with_blockCount_def Let_def)

lemma init_exons_with_blockCount:
  "init_exons (bt\<lparr>blockCount := bc\<rparr>) c = map_sum id (with_blockCount bc) (init_exons bt c)"
  by (simp add: init_exons_def filter_utr_def set_exons_with_blockCount
           split: option.splits sum.splits)

lemma init_fields_with_blockCount:
  "init_fields (fs[9 := bc]) = map_sum id (with_blockCount bc) (init_fields fs)"
proof (cases "length fs < 12")
  case True
  then show ?thesis by (simp add: init_fields_def make_bed_tuple_short)
next
  case False
  then have len: "12 \<le> length fs" by simp
  define bt where
    "bt = \<lparr> chrom = fs ! 0, chromStart = fs ! 1, chromEnd = fs ! 2, name = fs ! 3,
            score = fs ! 4, strand = fs ! 5, thickStart = fs ! 6, thickEnd = fs ! 7,
            itemRgb = fs ! 8, blockCount = fs ! 9, blockSizes = fs ! 10,
            blockStarts = fs ! 11 \<rparr>"
  have old: "make_bed_tuple fs = Inr bt"
    using len by (simp add: make_bed_tuple_long bt_def)
  have new: "make_bed_tuple (fs[9 := bc]) = Inr (bt\<lparr>blockCount := bc\<rparr>)"
    using len by (simp add: make_bed_tuple_long bt_def)
  show ?thesis
    by (simp add: init_fields_def old new init_exons_with_blockCount split: option.splits)
qed

lemma scan_with_blockCount:
  "scan (with_blockCount bc b) strd g i es pos = scan b strd g i es pos"
proof (induction es arbitrary: i pos)
  case Nil
  show ?case by simp
next
  case (Cons x es)
  obtain xs xe where x: "x = (xs, xe)" by (cases x)
  have f: "exon_lens (with_blockCount bc b) = exon_lens b"
    "num_exons (with_blockCount bc b) = num_exons b"
    "cds_len (with_blockCount bc b) = cds_len b"
    "five_ss_len (with_blockCount bc b) = five_ss_len b"
    by (simp_all add: with_blockCount_def)
  show ?case using Cons.IH by (auto simp: x f)
qed

text \<open>
  Claim C10. The \<^verbatim>\<open>blockCount\<close> field is stored with the raw tuple and never
  read. For every record, given as a list or as a string, putting any string in the
  place of the block count leaves the outcome of the constructor the same: the same
  exception, or the same object up to the raw field itself. The exons, their lengths
  and count, the coding length and every result of \<^verbatim>\<open>query_position\<close> do not
  depend on that field, and there is one raw exon for each entry of
  \<^verbatim>\<open>blockStarts\<close> whenever the sizes suffice. So a block count that disagrees
  with the lists is accepted silently.
\<close>

theorem blockCount_never_read:
  "BedLine_init (PyList (fs[9 := bc]))
     = map_sum id (with_blockCount bc) (BedLine_init (PyList fs))
   \<and> (split CHR 0x09 s' = (split CHR 0x09 s)[9 := bc]
        \<longrightarrow> BedLine_init (PyStr s') = map_sum id (with_blockCount bc) (BedLine_init (PyStr s)))
   \<and> exons (with_blockCount bc b) = exons b
   \<and> exon_lens (with_blockCount bc b) = exon_lens b
   \<and> num_exons (with_blockCount bc b) = num_exons b
   \<and> cds_len (with_blockCount bc b) = cds_len b
   \<and> five_ss_len (with_blockCount bc b) = five_ss_len b
   \<and> query_position (with_blockCount bc b) strd chr g = query_position b strd chr g
   \<and> (case raw_exons exon_starts exon_sizes of
         Inl e \<Rightarrow> length exon_sizes < length exon_starts
       | Inr ex \<Rightarrow> length ex = length exon_starts)"
proof -
  have "query_position (with_blockCount bc b) strd chr g = query_position b strd chr g"
    by (simp add: query_position_def scan_with_blockCount) (simp add: with_blockCount_def)
  moreover have "case raw_exons exon_starts exon_sizes of
                   Inl e \<Rightarrow> length exon_sizes < length exon_starts
                 | Inr ex \<Rightarrow> length ex = length exon_starts"
    by (simp add: raw_exons_def)
  ultimately show ?thesis
    by (simp add: BedLine_init_def init_fields_with_blockCount) (simp add: with_blockCount_def)
qed

theorem blockCount_never_read_witness:
  "BedLine_init (PyList (two_exon_fields[9 := ''7'']))
     = Inr (with_blockCount ''7'' two_exon_gene)
   \<and> split CHR 0x09 (two_exon_line ''7'') = (split CHR 0x09 (two_exon_line ''2''))[9 := ''7'']
   \<and> BedLine_init (PyStr (two_exon_line ''2'')) = Inr two_exon_gene
   \<and> BedLine_init (PyStr (two_exon_line ''7'')) = Inr (with_blockCount ''7'' two_exon_gene)
   \<and> exons (with_blockCount ''7'' two_exon_gene) = [(100, 200), (300, 400)]
   \<and> query_position (with_blockCount ''7'' two_exon_gene) ''+'' ''chr1'' 299 = Some 203"
proof -
  have l: "split CHR 0x09 (two_exon_line ''7'') = (split CHR 0x09 (two_exon_line ''2''))[9 := ''7'']"
    by code_simp
  have p: "BedLine_init (PyStr (two_exon_line ''2'')) = Inr two_exon_gene"
    by code_simp
  have e: "exons two_exon_gene = [(100, 200), (300, 400)]"
    and q: "query_position two_exon_gene ''+'' ''chr1'' 299 = Some 203"
    by code_simp+
  from blockCount_never_read [of two_exon_fields "''7''" "two_exon_line ''7''"
      "two_exon_line ''2''" two_exon_gene "''+''" "''chr1''" 299]
    l p e q two_exon_parsed
  show ?thesis by simp
qed

end
